theory Spec2Isabelle
  imports Main "HOL-Library.Word"
begin

unbundle bit_operations_syntax

section \<open>Values of Go's package net\<close>

text \<open>
  \<^verbatim>\<open>net.IP\<close> and \<^verbatim>\<open>net.IPMask\<close> are byte slices and \<^verbatim>\<open>net.IPNet\<close> is a struct of the
  two. A slice is a list here; where the program tests a slice against \<^verbatim>\<open>nil\<close> (the
  source address in \<^verbatim>\<open>IPIsTrusted\<close>) the value is an option and \<open>None\<close> is \<^verbatim>\<open>nil\<close>.
\<close>

type_synonym byte = "8 word"
type_synonym IP = "byte list"
type_synonym IPMask = "byte list"

record IPNet =
  IP :: IP
  Mask :: IPMask

text \<open>
  The firewall calls four primitives of package net: \<^verbatim>\<open>net.ParseIP\<close>,
  \<^verbatim>\<open>net.ParseCIDR\<close>, \<^verbatim>\<open>(*IPNet).Contains\<close> and \<^verbatim>\<open>(IP).String\<close>. They are not part of
  the repository, so the functions of the firewall take them as a parameter \<open>L\<close>.
  \<^verbatim>\<open>ParseCIDR\<close> returns \<^verbatim>\<open>(IP, *IPNet, error)\<close>; the firewall drops the first component,
  and the error is kept as the text of its \<^verbatim>\<open>Error()\<close> method, which is all that
  \<^verbatim>\<open>fmt.Errorf("%s", err)\<close> reads of it.
\<close>

record netlib =
  ParseIP :: "string \<Rightarrow> IP option"
  ParseCIDR :: "string \<Rightarrow> string + IPNet"
  Contains :: "IPNet \<Rightarrow> IP \<Rightarrow> bool"
  IP_String :: "IP option \<Rightarrow> string"

section \<open>firewall.go: the data\<close>

text \<open>
  \<^verbatim>\<open>PathToNetblocks\<close> is a Go map, which may be \<^verbatim>\<open>nil\<close>: \<open>None\<close> is the nil map and
  \<open>Some m\<close> an initialised one. Reading a nil map finds nothing; writing to it panics.
\<close>

record Rules =
  PathToNetblocks :: "(string \<rightharpoonup> IPNet list) option"
  FailOpen :: bool

record Firewall =
  Rules :: Rules
  Log :: bool

text \<open>The errors of the package: its three sentinel values and the values built by \<^verbatim>\<open>fmt.Errorf\<close>.\<close>

datatype error =
  ErrPathHasRule
  | ErrCouldNotParseCIDR
  | ErrCouldNotReadSrc
  | Errorf string

text \<open>The run-time panics the code can raise.\<close>

datatype panic =
  AssignmentToNilMap
  | IndexOutOfRange

definition map_index :: "('k \<rightharpoonup> 'v) option \<Rightarrow> 'k \<Rightarrow> 'v option" where
  \<comment> \<open>\<^verbatim>\<open>v, ok := m[k]\<close>: \<open>None\<close> is \<^verbatim>\<open>ok == false\<close>; a nil map has no entries\<close>
  "map_index m k = (case m of None \<Rightarrow> None | Some f \<Rightarrow> f k)"

definition New :: Firewall where
  "New = \<lparr>Rules = \<lparr>PathToNetblocks = None, FailOpen = False\<rparr>, Log = False\<rparr>"

definition NewFirewall :: "(string \<rightharpoonup> IPNet list) option \<Rightarrow> bool \<Rightarrow> bool \<Rightarrow> Firewall" where
  "NewFirewall rules failOpen log =
     \<lparr>Rules = \<lparr>PathToNetblocks = rules, FailOpen = failOpen\<rparr>, Log = log\<rparr>"

section \<open>IPIsTrusted\<close>

fun IPIsTrusted_range :: "netlib \<Rightarrow> IPNet list \<Rightarrow> IP \<Rightarrow> bool" where
  \<comment> \<open>the \<^verbatim>\<open>for _, netblock := range trusted\<close> loop\<close>
  "IPIsTrusted_range L [] src = False"
| "IPIsTrusted_range L (netblock # trusted) src =
     (if Contains L netblock src then True else IPIsTrusted_range L trusted src)"

definition IPIsTrusted :: "netlib \<Rightarrow> IPNet list \<Rightarrow> IP option \<Rightarrow> bool" where
  "IPIsTrusted L trusted src =
     (case src of None \<Rightarrow> False | Some ip \<Rightarrow> IPIsTrusted_range L trusted ip)"

section \<open>AddPathRule\<close>

fun parse_networks :: "netlib \<Rightarrow> string list \<Rightarrow> IPNet list \<Rightarrow> error + IPNet list" where
  \<comment> \<open>the loop over \<^verbatim>\<open>networks\<close>; the third argument is \<^verbatim>\<open>trusted\<close> as built so far\<close>
  "parse_networks L [] trusted = Inr trusted"
| "parse_networks L (network # networks) trusted =
     (case ParseCIDR L network of
        Inl err \<Rightarrow> Inl (Errorf (''could not parse CIDR: '' @ err))
      | Inr trustedNetblock \<Rightarrow> parse_networks L networks (trusted @ [trustedNetblock]))"

text \<open>
  The receiver is a pointer and the method updates it in place: the model returns the
  firewall after the call beside the returned error (\<open>None\<close> is \<^verbatim>\<open>nil\<close>), or the panic.
\<close>

definition AddPathRule ::
  "netlib \<Rightarrow> Firewall \<Rightarrow> string \<Rightarrow> string list \<Rightarrow> panic + (Firewall \<times> error option)" where
  "AddPathRule L fw path networks =
     (case map_index (PathToNetblocks (Rules fw)) path of
        Some _ \<Rightarrow> Inr (fw, Some ErrPathHasRule)
      | None \<Rightarrow>
          (case parse_networks L networks [] of
             Inl err \<Rightarrow> Inr (fw, Some err)
           | Inr trusted \<Rightarrow>
               (case PathToNetblocks (Rules fw) of
                  None \<Rightarrow> Inl AssignmentToNilMap
                | Some m \<Rightarrow>
                    Inr (fw\<lparr>Rules := (Rules fw)\<lparr>PathToNetblocks := Some (m(path \<mapsto> trusted))\<rparr>\<rparr>,
                         None))))"

section \<open>Wrap\<close>

text \<open>
  What the handler sees of \<^verbatim>\<open>*http.Request\<close>: the peer address and the path of the URL.
\<close>

record Request =
  RemoteAddr :: string
  URL_Path :: string

text \<open>
  The effects of a handler are calls of collaborators outside the repository. The
  state records the ones \<^verbatim>\<open>Wrap\<close> makes itself: the lines handed to \<^verbatim>\<open>log.Println\<close>
  and the (message, code) pairs handed to \<^verbatim>\<open>http.Error\<close> on the response writer, oldest
  first. The record is extensible, so an inner handler may keep any further state.
\<close>

record world =
  log_lines :: "string list"
  error_replies :: "(string \<times> nat) list"

definition log_Println :: "string \<Rightarrow> 'a world_scheme \<Rightarrow> 'a world_scheme" where
  "log_Println line w = w\<lparr>log_lines := log_lines w @ [line]\<rparr>"

definition http_Error :: "string \<Rightarrow> nat \<Rightarrow> 'a world_scheme \<Rightarrow> 'a world_scheme" where
  "http_Error msg code w = w\<lparr>error_replies := error_replies w @ [(msg, code)]\<rparr>"

definition StatusForbidden :: nat where
  "StatusForbidden = 403"

definition StatusText :: "nat \<Rightarrow> string" where
  \<comment> \<open>the rows of net/http's table for the client errors 400 to 404; an unknown code gives the empty string\<close>
  "StatusText code =
     (if code = 400 then ''Bad Request''
      else if code = 401 then ''Unauthorized''
      else if code = 402 then ''Payment Required''
      else if code = 403 then ''Forbidden''
      else if code = 404 then ''Not Found''
      else '''')"

function strings_Split :: "string \<Rightarrow> char \<Rightarrow> string list" where
  \<comment> \<open>\<^verbatim>\<open>strings.Split(s, sep)\<close> for a separator of one byte\<close>
  "strings_Split s sep =
     (case dropWhile (\<lambda>c. c \<noteq> sep) s of
        [] \<Rightarrow> [s]
      | _ # rest \<Rightarrow> takeWhile (\<lambda>c. c \<noteq> sep) s # strings_Split rest sep)"
  by pat_completeness auto
termination
proof (relation "measure (\<lambda>(s, sep). length s)")
  show "wf (measure (\<lambda>(s, sep). length s))" by simp
next
  fix s :: string and sep x21 x22
  assume "dropWhile (\<lambda>c. c \<noteq> sep) s = x21 # x22"
  then have "length x22 < length (dropWhile (\<lambda>c. c \<noteq> sep) s)" by simp
  also have "\<dots> \<le> length s" by (rule length_dropWhile_le)
  finally show "((x22, sep), (s, sep)) \<in> measure (\<lambda>(s, sep). length s)" by simp
qed

declare strings_Split.simps [simp del]

definition authorized :: "netlib \<Rightarrow> Firewall \<Rightarrow> string \<Rightarrow> IP option \<Rightarrow> bool" where
  \<comment> \<open>lines 84 and 85: a path without an entry yields the zero value, the nil slice\<close>
  "authorized L fw path srcIP =
     (let (rule, hasRule) =
            (case map_index (PathToNetblocks (Rules fw)) path of
               None \<Rightarrow> ([], False)
             | Some netblocks \<Rightarrow> (netblocks, True))
      in (hasRule \<and> IPIsTrusted L rule srcIP) \<or> FailOpen (Rules fw))"

definition blocked_line :: "netlib \<Rightarrow> IP option \<Rightarrow> string \<Rightarrow> string" where
  \<comment> \<open>\<^verbatim>\<open>fmt.Sprintf("[FIREWALL] blocked request from %s for %s", srcIP.String(), r.URL.Path)\<close>\<close>
  "blocked_line L srcIP path =
     ''[FIREWALL] blocked request from '' @ IP_String L srcIP @ '' for '' @ path"

definition extract_srcIP :: "netlib \<Rightarrow> Request \<Rightarrow> panic + IP option" where
  \<comment> \<open>line 82: \<^verbatim>\<open>net.ParseIP(strings.Split(r.RemoteAddr, ":")[0])\<close>; indexing an empty slice panics\<close>
  "extract_srcIP L r =
     (case strings_Split (RemoteAddr r) CHR '':'' of
        [] \<Rightarrow> Inl IndexOutOfRange
      | segment # _ \<Rightarrow> Inr (ParseIP L segment))"

definition Wrap ::
  "netlib \<Rightarrow> Firewall \<Rightarrow> ('a world_scheme \<Rightarrow> Request \<Rightarrow> 'a world_scheme) \<Rightarrow>
   'a world_scheme \<Rightarrow> Request \<Rightarrow> panic + 'a world_scheme" where
  "Wrap L fw h w r =
     (case extract_srcIP L r of
        Inl p \<Rightarrow> Inl p
      | Inr srcIP \<Rightarrow>
          if \<not> authorized L fw (URL_Path r) srcIP then
            Inr (http_Error (StatusText StatusForbidden) StatusForbidden
                   (log_Println (blocked_line L srcIP (URL_Path r)) w))
          else Inr (h w r))"

section \<open>The IPv4 fragment of package net\<close>

text \<open>
  To run the firewall on concrete requests the four primitives are instantiated with a
  model of package net (as of Go 1.12) for IPv4 text. Text with a colon is IPv6 text and
  lies outside the fragment: \<open>parseIPv6\<close> below reports it unparseable, and
  \<open>net_IP_String\<close> renders only \<^verbatim>\<open>nil\<close> and IPv4 addresses as Go does. The theorems
  about the firewall are proved for every \<open>L\<close>, so none of them rests on this model; it
  serves the concrete instances. In the results of \<open>CIDRMask\<close>, \<open>IP_Mask\<close> and
  \<open>networkNumberAndMask\<close> the nil slice is the empty list: their callers read only its
  length.
\<close>

definition isDigit :: "char \<Rightarrow> bool" where
  "isDigit c \<longleftrightarrow> of_char CHR ''0'' \<le> (of_char c :: nat) \<and> (of_char c :: nat) \<le> of_char CHR ''9''"

definition big :: nat where
  "big = 0xFFFFFF"

fun dtoi_loop :: "string \<Rightarrow> nat \<Rightarrow> nat \<Rightarrow> nat \<times> nat \<times> bool" where
  \<comment> \<open>the loop of \<^verbatim>\<open>dtoi\<close> on the rest of the string, with \<^verbatim>\<open>n\<close> and \<^verbatim>\<open>i\<close> so far\<close>
  "dtoi_loop [] n i = (n, i, True)"
| "dtoi_loop (c # s) n i =
     (if isDigit c then
        (let n' = n * 10 + (of_char c - of_char CHR ''0'') in
         if n' \<ge> big then (big, i, False) else dtoi_loop s n' (i + 1))
      else (n, i, True))"

definition dtoi :: "string \<Rightarrow> nat \<times> nat \<times> bool" where
  "dtoi s =
     (case dtoi_loop s 0 0 of
        (n, i, ok) \<Rightarrow>
          if \<not> ok then (n, i, False)
          else if i = 0 then (0, 0, False)
          else (n, i, True))"

definition v4InV6Prefix :: "byte list" where
  "v4InV6Prefix = [0, 0, 0, 0, 0, 0, 0, 0, 0, 0, 0xff, 0xff]"

definition IPv4 :: "byte \<Rightarrow> byte \<Rightarrow> byte \<Rightarrow> byte \<Rightarrow> IP" where
  "IPv4 a b c d = v4InV6Prefix @ [a, b, c, d]"

fun parseIPv4_loop :: "nat \<Rightarrow> nat \<Rightarrow> string \<Rightarrow> byte list \<Rightarrow> (byte list \<times> string) option" where
  \<comment> \<open>the loop \<^verbatim>\<open>for i := 0; i < IPv4len; i++\<close>: the first argument counts the rounds left,
      the second is \<^verbatim>\<open>i\<close>, the last the bytes \<^verbatim>\<open>p[0..i)\<close>\<close>
  "parseIPv4_loop 0 i s p = Some (p, s)"
| "parseIPv4_loop (Suc k) i s p =
     (if s = [] then None
      else if i > 0 \<and> hd s \<noteq> CHR ''.'' then None
      else
        (let s1 = (if i > 0 then tl s else s) in
         case dtoi s1 of
           (n, c, ok) \<Rightarrow>
             if \<not> ok then None
             else if n > 0xFF then None
             else parseIPv4_loop k (i + 1) (drop c s1) (p @ [of_nat n])))"

definition parseIPv4 :: "string \<Rightarrow> IP option" where
  "parseIPv4 s =
     (case parseIPv4_loop 4 0 s [] of
        Some ([a, b, c, d], []) \<Rightarrow> Some (IPv4 a b c d)
      | _ \<Rightarrow> None)"

definition parseIPv6 :: "string \<Rightarrow> IP option" where
  \<comment> \<open>outside the fragment\<close>
  "parseIPv6 s = None"

fun net_ParseIP_scan :: "string \<Rightarrow> string \<Rightarrow> IP option" where
  \<comment> \<open>the loop of \<^verbatim>\<open>ParseIP\<close> over the bytes of \<^verbatim>\<open>s\<close>: the first argument is the rest to scan\<close>
  "net_ParseIP_scan [] s = None"
| "net_ParseIP_scan (c # cs) s =
     (if c = CHR ''.'' then parseIPv4 s
      else if c = CHR '':'' then parseIPv6 s
      else net_ParseIP_scan cs s)"

definition net_ParseIP :: "string \<Rightarrow> IP option" where
  "net_ParseIP s = net_ParseIP_scan s s"

definition To4 :: "IP \<Rightarrow> IP option" where
  "To4 ip =
     (if length ip = 4 then Some ip
      else if length ip = 16 \<and> take 10 ip = replicate 10 0 \<and> ip ! 10 = 0xff \<and> ip ! 11 = 0xff
        then Some (drop 12 ip)
      else None)"

fun CIDRMask_loop :: "nat \<Rightarrow> nat \<Rightarrow> byte list" where
  \<comment> \<open>the loop filling \<^verbatim>\<open>m\<close>: bytes left to fill, and \<^verbatim>\<open>n\<close>, the one bits left\<close>
  "CIDRMask_loop 0 n = []"
| "CIDRMask_loop (Suc l) n =
     (if n \<ge> 8 then 0xff # CIDRMask_loop l (n - 8)
      else NOT (drop_bit n (0xff :: byte)) # CIDRMask_loop l 0)"

definition CIDRMask :: "nat \<Rightarrow> nat \<Rightarrow> IPMask" where
  "CIDRMask ones bits =
     (if bits \<noteq> 32 \<and> bits \<noteq> 128 then []
      else if ones > bits then []
      else CIDRMask_loop (bits div 8) ones)"

definition IP_Mask :: "IP \<Rightarrow> IPMask \<Rightarrow> IP" where
  \<comment> \<open>\<^verbatim>\<open>func (ip IP) Mask(mask IPMask) IP\<close>\<close>
  "IP_Mask ip msk =
     (let msk1 = (if length msk = 16 \<and> length ip = 4 \<and> take 12 msk = replicate 12 0xff
                  then drop 12 msk else msk);
          ip1 = (if length msk1 = 4 \<and> length ip = 16 \<and> take 12 ip = v4InV6Prefix
                 then drop 12 ip else ip)
      in if length ip1 \<noteq> length msk1 then []
         else map2 (\<lambda>b m. b AND m) ip1 msk1)"

definition net_ParseCIDR :: "string \<Rightarrow> string + IPNet" where
  "net_ParseCIDR s =
     (let err = ''invalid CIDR address: '' @ s in
      if CHR ''/'' \<notin> set s then Inl err
      else
        (let addr = takeWhile (\<lambda>c. c \<noteq> CHR ''/'') s;
             msk = tl (dropWhile (\<lambda>c. c \<noteq> CHR ''/'') s);
             ip4 = parseIPv4 addr;
             iplen = (if ip4 = None then 16 else 4);
             ip = (if ip4 = None then parseIPv6 addr else ip4)
         in case dtoi msk of
              (n, i, ok) \<Rightarrow>
                (case ip of
                   None \<Rightarrow> Inl err
                 | Some ip' \<Rightarrow>
                     if \<not> (ok \<and> i = length msk \<and> n \<le> 8 * iplen) then Inl err
                     else
                       (let m = CIDRMask n (8 * iplen)
                        in Inr \<lparr>IP = IP_Mask ip' m, Mask = m\<rparr>))))"

definition networkNumberAndMask :: "IPNet \<Rightarrow> IP \<times> IPMask" where
  \<comment> \<open>the pair \<^verbatim>\<open>(nil, nil)\<close> is the pair of empty lists: only lengths are read of it\<close>
  "networkNumberAndMask n =
     (case (case To4 (IP n) of
              Some ip4 \<Rightarrow> Some ip4
            | None \<Rightarrow> if length (IP n) \<noteq> 16 then None else Some (IP n)) of
        None \<Rightarrow> ([], [])
      | Some ip \<Rightarrow>
          if length (Mask n) = 4 then (if length ip \<noteq> 4 then ([], []) else (ip, Mask n))
          else if length (Mask n) = 16 then
            (if length ip = 4 then (ip, drop 12 (Mask n)) else (ip, Mask n))
          else ([], []))"

definition net_Contains :: "IPNet \<Rightarrow> IP \<Rightarrow> bool" where
  "net_Contains n ip =
     (case networkNumberAndMask n of
        (nn, m) \<Rightarrow>
          (let ip1 = (case To4 ip of Some x \<Rightarrow> x | None \<Rightarrow> ip);
               l = length ip1
           in if l \<noteq> length nn then False
              else list_all (\<lambda>i. nn ! i AND m ! i = ip1 ! i AND m ! i) [0..<l]))"

fun uitoa :: "nat \<Rightarrow> string" where
  "uitoa n =
     (if n < 10 then [char_of (of_char CHR ''0'' + n)]
      else uitoa (n div 10) @ [char_of (of_char CHR ''0'' + n mod 10)])"

definition net_IP_String :: "IP option \<Rightarrow> string" where
  "net_IP_String src =
     (case src of
        None \<Rightarrow> ''<nil>''
      | Some ip \<Rightarrow>
          if length ip = 0 then ''<nil>''
          else
            (case To4 ip of
               Some [a, b, c, d] \<Rightarrow>
                 uitoa (unat a) @ ''.'' @ uitoa (unat b) @ ''.'' @ uitoa (unat c) @ ''.'' @ uitoa (unat d)
             | _ \<Rightarrow> ''?''))"

definition net4 :: netlib where
  "net4 = \<lparr>ParseIP = net_ParseIP, ParseCIDR = net_ParseCIDR, Contains = net_Contains,
           IP_String = net_IP_String\<rparr>"

section \<open>Peer addresses\<close>

text \<open>
  The server fills \<^verbatim>\<open>RemoteAddr\<close> with \<^verbatim>\<open>net.JoinHostPort(host, port)\<close>, which puts a
  host with a colon between brackets. Every IPv6 literal has a colon, and the text before
  its first colon is a run of hexadecimal digits (empty when the literal starts with
  \<^verbatim>\<open>::\<close>); \<open>ipv6_text\<close> asks no more than that of a host.
\<close>

definition JoinHostPort :: "string \<Rightarrow> string \<Rightarrow> string" where
  "JoinHostPort host port =
     (if CHR '':'' \<in> set host then ''['' @ host @ '']:'' @ port else host @ '':'' @ port)"

definition isHexDigit :: "char \<Rightarrow> bool" where
  "isHexDigit c \<longleftrightarrow> c \<in> set ''0123456789abcdefABCDEF''"

definition ipv6_text :: "string \<Rightarrow> bool" where
  "ipv6_text host \<longleftrightarrow>
     CHR '':'' \<in> set host \<and> list_all isHexDigit (takeWhile (\<lambda>c. c \<noteq> CHR '':'') host)"

text \<open>
  What the firewall needs to know of \<^verbatim>\<open>net.ParseIP\<close> for such peers: it looks for the
  first \<^verbatim>\<open>.\<close> or \<^verbatim>\<open>:\<close> of the text to choose between the IPv4 and the IPv6 parser, and
  returns \<^verbatim>\<open>nil\<close> for a text that has neither.
\<close>

definition ParseIP_needs_separator :: "netlib \<Rightarrow> bool" where
  "ParseIP_needs_separator L \<longleftrightarrow>
     (\<forall>s. CHR ''.'' \<notin> set s \<and> CHR '':'' \<notin> set s \<longrightarrow> ParseIP L s = None)"

section \<open>Example configurations\<close>

text \<open>
  The prefixes \<^verbatim>\<open>10.0.0.0/8\<close> and \<^verbatim>\<open>192.168.0.0/16\<close> of the README's example, a rule table
  that trusts the first for the path \<^verbatim>\<open>/hello\<close>, and the README's handler, which answers
  200 with the body \<^verbatim>\<open>Hello World!\<close>. The handler's own writes to the response are
  kept in a field that extends the state.
\<close>

definition net10 :: IPNet where
  "net10 = \<lparr>IP = [10, 0, 0, 0], Mask = [255, 0, 0, 0]\<rparr>"

definition net192 :: IPNet where
  "net192 = \<lparr>IP = [192, 168, 0, 0], Mask = [255, 255, 0, 0]\<rparr>"

definition hello_rules :: "(string \<rightharpoonup> IPNet list) option" where
  "hello_rules = Some [''/hello'' \<mapsto> [net10]]"

record served = world +
  written :: "(nat \<times> string) list"

definition helloWorldHandler :: "served \<Rightarrow> Request \<Rightarrow> served" where
  "helloWorldHandler w r = w\<lparr>written := written w @ [(200, ''Hello World!'')]\<rparr>"

definition idle :: served where
  "idle = \<lparr>log_lines = [], error_replies = [], written = []\<rparr>"

section \<open>Properties\<close>

subsection \<open>The loops and the extraction of the source address\<close>

lemma strings_Split_Cons:
  "strings_Split s sep = takeWhile (\<lambda>c. c \<noteq> sep) s # tl (strings_Split s sep)"
proof (cases "dropWhile (\<lambda>c. c \<noteq> sep) s")
  case Nil
  then have whole: "takeWhile (\<lambda>c. c \<noteq> sep) s = s"
    by (metis append_Nil2 takeWhile_dropWhile_id)
  have single: "strings_Split s sep = [s]"
    by (subst strings_Split.simps) (simp only: Nil list.case)
  show ?thesis
    unfolding single whole by simp
next
  case (Cons a rest)
  have "strings_Split s sep = takeWhile (\<lambda>c. c \<noteq> sep) s # strings_Split rest sep"
    by (subst strings_Split.simps) (simp only: Cons list.case)
  then show ?thesis
    by (simp only: list.sel)
qed

text \<open>Line 82 never panics: the source address is parsed from the text before the first colon.\<close>

lemma extract_srcIP_eq:
  "extract_srcIP L r = Inr (ParseIP L (takeWhile (\<lambda>c. c \<noteq> CHR '':'') (RemoteAddr r)))"
  unfolding extract_srcIP_def
  by (subst strings_Split_Cons) simp

lemma IPIsTrusted_range_iff:
  "IPIsTrusted_range L trusted ip \<longleftrightarrow> (\<exists>n\<in>set trusted. Contains L n ip)"
  by (induction trusted) auto

lemma Wrap_eq:
  "Wrap L fw h w r =
     (if authorized L fw (URL_Path r) (ParseIP L (takeWhile (\<lambda>c. c \<noteq> CHR '':'') (RemoteAddr r)))
      then Inr (h w r)
      else Inr (w\<lparr>log_lines := log_lines w @
                     [blocked_line L (ParseIP L (takeWhile (\<lambda>c. c \<noteq> CHR '':'') (RemoteAddr r)))
                        (URL_Path r)],
                  error_replies := error_replies w @ [(''Forbidden'', 403)]\<rparr>))"
  by (simp add: Wrap_def extract_srcIP_eq http_Error_def log_Println_def StatusText_def
      StatusForbidden_def)

lemma parse_networks_fail:
  "list_all (\<lambda>n. \<not> isl (ParseCIDR L n)) good \<Longrightarrow> ParseCIDR L bad = Inl err \<Longrightarrow>
   parse_networks L (good @ bad # rest) acc = Inl (Errorf (''could not parse CIDR: '' @ err))"
  by (induction good arbitrary: acc) (auto split: sum.splits)

lemma parse_networks_ok:
  "list_all (\<lambda>n. \<not> isl (ParseCIDR L n)) networks \<Longrightarrow>
   parse_networks L networks acc = Inr (acc @ map (\<lambda>n. projr (ParseCIDR L n)) networks)"
  by (induction networks arbitrary: acc) (auto split: sum.splits)

lemma parse_networks_Inr:
  "parse_networks L networks acc = Inr trusted \<Longrightarrow>
   list_all (\<lambda>n. \<not> isl (ParseCIDR L n)) networks \<and>
   trusted = acc @ map (\<lambda>n. projr (ParseCIDR L n)) networks"
proof (induction networks arbitrary: acc)
  case Nil
  then show ?case by simp
next
  case (Cons network networks)
  show ?case
  proof (cases "ParseCIDR L network")
    case (Inl err)
    with Cons.prems show ?thesis by simp
  next
    case (Inr trustedNetblock)
    with Cons.prems have "parse_networks L networks (acc @ [trustedNetblock]) = Inr trusted"
      by simp
    from Cons.IH [OF this] Inr show ?thesis by simp
  qed
qed

lemma first_unparseable:
  assumes "\<exists>n\<in>set networks. isl (ParseCIDR L n)"
  shows "\<exists>good bad rest err. networks = good @ bad # rest \<and>
           list_all (\<lambda>n. \<not> isl (ParseCIDR L n)) good \<and> ParseCIDR L bad = Inl err"
proof -
  from assms obtain good bad rest where
    "networks = good @ bad # rest" "isl (ParseCIDR L bad)" "\<forall>n\<in>set good. \<not> isl (ParseCIDR L n)"
    using split_list_first_prop [of networks "\<lambda>n. isl (ParseCIDR L n)"] by blast
  moreover from this obtain err where "ParseCIDR L bad = Inl err"
    by (cases "ParseCIDR L bad") auto
  ultimately show ?thesis
    by (auto simp: list_all_iff)
qed

subsection \<open>IPv6 peers\<close>

lemma takeWhile_colon_free:
  "CHR '':'' \<notin> set (takeWhile (\<lambda>c. c \<noteq> CHR '':'') s)"
  by (induction s) auto

lemma isHexDigit_not_dot: "isHexDigit c \<Longrightarrow> c \<noteq> CHR ''.''"
  by (auto simp: isHexDigit_def)

lemma ipv6_text_first_group:
  assumes "ipv6_text host"
  shows "CHR ''.'' \<notin> set (takeWhile (\<lambda>c. c \<noteq> CHR '':'') host)"
  using assms isHexDigit_not_dot by (auto simp: ipv6_text_def list_all_iff)

lemma takeWhile_append_mem:
  "x \<in> set xs \<Longrightarrow> \<not> P x \<Longrightarrow> takeWhile P (xs @ ys) = takeWhile P xs"
  by (induction xs) auto

lemma ipv6_segment:
  assumes "ipv6_text host" and "addr = JoinHostPort host port \<or> addr = host"
  shows "CHR ''.'' \<notin> set (takeWhile (\<lambda>c. c \<noteq> CHR '':'') addr) \<and>
         CHR '':'' \<notin> set (takeWhile (\<lambda>c. c \<noteq> CHR '':'') addr)"
proof -
  from assms(1) have colon: "CHR '':'' \<in> set host" by (simp add: ipv6_text_def)
  have "takeWhile (\<lambda>c. c \<noteq> CHR '':'') (JoinHostPort host port) =
        CHR ''['' # takeWhile (\<lambda>c. c \<noteq> CHR '':'') host"
    using colon by (simp add: JoinHostPort_def takeWhile_append_mem)
  with assms(2) ipv6_text_first_group [OF assms(1)] takeWhile_colon_free [of host]
  show ?thesis by auto
qed

subsection \<open>The IPv4 fragment on the example addresses\<close>

lemma parseIPv4_loop_numeral:
  "parseIPv4_loop (numeral k) i s p = parseIPv4_loop (Suc (pred_numeral k)) i s p"
  by (simp only: numeral_eq_Suc)

lemmas parseIPv4_eval =
  parseIPv4_def dtoi_def isDigit_def big_def parseIPv4_loop_numeral [unfolded parseIPv4_loop.simps]

lemma parseIPv4_203: "parseIPv4 ''203.0.113.5'' = Some (IPv4 203 0 113 5)"
  by (simp add: parseIPv4_eval)

lemma parseIPv4_10: "parseIPv4 ''10.1.2.3'' = Some (IPv4 10 1 2 3)"
  by (simp add: parseIPv4_eval)

lemma parseIPv4_net10: "parseIPv4 ''10.0.0.0'' = Some (IPv4 10 0 0 0)"
  by (simp add: parseIPv4_eval)

lemma parseIPv4_net192: "parseIPv4 ''192.168.0.0'' = Some (IPv4 192 168 0 0)"
  by (simp add: parseIPv4_eval)

lemma net_ParseIP_203: "net_ParseIP ''203.0.113.5'' = Some (IPv4 203 0 113 5)"
  by (simp add: net_ParseIP_def parseIPv4_203)

lemma net_ParseIP_10: "net_ParseIP ''10.1.2.3'' = Some (IPv4 10 1 2 3)"
  by (simp add: net_ParseIP_def parseIPv4_10)

lemma net_ParseIP_scan_None:
  "CHR ''.'' \<notin> set cs \<Longrightarrow> CHR '':'' \<notin> set cs \<Longrightarrow> net_ParseIP_scan cs s = None"
  by (induction cs) auto

lemma net4_needs_separator: "ParseIP_needs_separator net4"
  by (simp add: ParseIP_needs_separator_def net4_def net_ParseIP_def net_ParseIP_scan_None)

lemma CIDRMask_8: "CIDRMask 8 32 = [255, 0, 0, 0]"
  by code_simp

lemma CIDRMask_16: "CIDRMask 16 32 = [255, 255, 0, 0]"
  by code_simp

lemma IP_Mask_net10: "IP_Mask (IPv4 10 0 0 0) [255, 0, 0, 0] = [10, 0, 0, 0]"
  by code_simp

lemma IP_Mask_net192: "IP_Mask (IPv4 192 168 0 0) [255, 255, 0, 0] = [192, 168, 0, 0]"
  by code_simp

lemma net_ParseCIDR_net10: "net_ParseCIDR ''10.0.0.0/8'' = Inr net10"
  by (simp add: net_ParseCIDR_def parseIPv4_net10 CIDRMask_8 IP_Mask_net10
      dtoi_def isDigit_def big_def net10_def)

lemma net_ParseCIDR_net192: "net_ParseCIDR ''192.168.0.0/16'' = Inr net192"
  by (simp add: net_ParseCIDR_def parseIPv4_net192 CIDRMask_16 IP_Mask_net192
      dtoi_def isDigit_def big_def net192_def)

lemma net_ParseCIDR_no_slash:
  "CHR ''/'' \<notin> set s \<Longrightarrow> net_ParseCIDR s = Inl (''invalid CIDR address: '' @ s)"
  by (simp add: net_ParseCIDR_def)

lemma net_Contains_net10_in: "net_Contains net10 (IPv4 10 1 2 3)"
  by code_simp

lemma net_Contains_net10_out: "\<not> net_Contains net10 (IPv4 203 0 113 5)"
  by code_simp

lemma net_IP_String_203: "net_IP_String (Some (IPv4 203 0 113 5)) = ''203.0.113.5''"
  by code_simp

lemma net_IP_String_nil: "net_IP_String None = ''<nil>''"
  by (simp add: net_IP_String_def)

lemma net_Contains_net192_out:
  "\<not> net_Contains net192 (IPv4 10 1 2 3)" "\<not> net_Contains net192 (IPv4 203 0 113 5)"
  by code_simp+

section \<open>The claims\<close>

text \<open>
  Claim C5. For a path that has no entry in the rule table (the map is nil, or it has no
  such key) the authorization decision computed on lines 84 and 85 equals the
  \<^verbatim>\<open>FailOpen\<close> flag, whatever the source address is: two addresses get the same decision.
\<close>

theorem unconfigured_path_follows_FailOpen:
  assumes "map_index (PathToNetblocks (Rules fw)) path = None"
  shows "authorized L fw path a = FailOpen (Rules fw) \<and>
         authorized L fw path a = authorized L fw path b"
  using assms by (simp add: authorized_def)

text \<open>
  The spec's scenarios B and C: \<^verbatim>\<open>/other\<close> is not configured; with \<^verbatim>\<open>FailOpen\<close> set the
  request from 203.0.113.5 is authorized, without it even a request from 10.1.2.3 is not.
\<close>

theorem unconfigured_path_follows_FailOpen_witness:
  "map_index (PathToNetblocks (Rules (NewFirewall hello_rules True False))) ''/other'' = None \<and>
   authorized net4 (NewFirewall hello_rules True False) ''/other'' (Some (IPv4 203 0 113 5)) \<and>
   map_index (PathToNetblocks (Rules (NewFirewall hello_rules False False))) ''/other'' = None \<and>
   \<not> authorized net4 (NewFirewall hello_rules False False) ''/other'' (Some (IPv4 10 1 2 3))"
proof -
  have open_none:
    "map_index (PathToNetblocks (Rules (NewFirewall hello_rules True False))) ''/other'' = None"
    by (simp add: NewFirewall_def hello_rules_def map_index_def)
  have closed_none:
    "map_index (PathToNetblocks (Rules (NewFirewall hello_rules False False))) ''/other'' = None"
    by (simp add: NewFirewall_def hello_rules_def map_index_def)
  from unconfigured_path_follows_FailOpen [OF open_none, of net4 "Some (IPv4 203 0 113 5)"]
    unconfigured_path_follows_FailOpen [OF closed_none, of net4 "Some (IPv4 10 1 2 3)"]
    open_none closed_none
  show ?thesis by (simp add: NewFirewall_def)
qed

text \<open>
  Claim C8. \<^verbatim>\<open>IPIsTrusted\<close> returns false for the nil address whatever the list is, and
  false on the empty list. For an address that is not nil it tries the prefixes from the
  head of the list on and answers true at the first one that contains the address; so it
  answers true exactly when some prefix of the list contains the address.
\<close>

theorem IPIsTrusted_membership:
  "IPIsTrusted L trusted None = False \<and>
   IPIsTrusted L [] src = False \<and>
   IPIsTrusted L (n # trusted) (Some ip) = (Contains L n ip \<or> IPIsTrusted L trusted (Some ip)) \<and>
   IPIsTrusted L trusted (Some ip) = (\<exists>n\<in>set trusted. Contains L n ip)"
  by (cases src) (auto simp: IPIsTrusted_def IPIsTrusted_range_iff)

text \<open>
  With the list 192.168.0.0/16, 10.0.0.0/8: the address 10.1.2.3 is trusted (by the second
  prefix), 203.0.113.5 is not, and neither is the nil address.
\<close>

theorem IPIsTrusted_membership_witness:
  "IPIsTrusted net4 [net192, net10] (Some (IPv4 10 1 2 3)) \<and>
   \<not> IPIsTrusted net4 [net192, net10] (Some (IPv4 203 0 113 5)) \<and>
   \<not> IPIsTrusted net4 [net192, net10] None"
  using IPIsTrusted_membership [where L = net4 and trusted = "[net192, net10]"
      and ip = "IPv4 10 1 2 3"]
    IPIsTrusted_membership [where L = net4 and trusted = "[net192, net10]"
      and ip = "IPv4 203 0 113 5"]
    net_Contains_net10_in net_Contains_net10_out net_Contains_net192_out
  by (simp add: net4_def)

subsection \<open>AddPathRule\<close>

lemma AddPathRule_unconfigured_ok:
  assumes "PathToNetblocks (Rules fw) = Some m" and "m path = None"
    and "list_all (\<lambda>n. \<not> isl (ParseCIDR L n)) networks"
  shows "AddPathRule L fw path networks =
           Inr (fw\<lparr>Rules := (Rules fw)\<lparr>PathToNetblocks :=
                      Some (m(path \<mapsto> map (\<lambda>n. projr (ParseCIDR L n)) networks))\<rparr>\<rparr>, None)"
  using assms by (simp add: AddPathRule_def map_index_def parse_networks_ok)

lemma AddPathRule_hello:
  "AddPathRule net4 (NewFirewall (Some Map.empty) failOpen log) ''/hello'' [''10.0.0.0/8''] =
     Inr (NewFirewall hello_rules failOpen log, None)"
  by (simp add: AddPathRule_def map_index_def NewFirewall_def hello_rules_def net4_def
      net_ParseCIDR_net10)

text \<open>
  Claim C3. \<^verbatim>\<open>New\<close> leaves \<^verbatim>\<open>PathToNetblocks\<close> nil. On such a firewall no path is
  configured, and whenever every string of the list parses, \<^verbatim>\<open>AddPathRule\<close> reaches the
  assignment on line 74 and panics there (assignment to an entry of a nil map) instead of
  returning. Conversely a call that returns \<^verbatim>\<open>nil\<close>, the success branch, was made on a
  firewall whose map is not nil.
\<close>

theorem AddPathRule_after_New_panics:
  "map_index (PathToNetblocks (Rules New)) path = None \<and>
   (list_all (\<lambda>n. \<not> isl (ParseCIDR L n)) networks \<longrightarrow>
      AddPathRule L New path networks = Inl AssignmentToNilMap) \<and>
   (AddPathRule L fw path networks = Inr (fw', None) \<longrightarrow> PathToNetblocks (Rules fw) \<noteq> None)"
  by (auto simp: AddPathRule_def map_index_def New_def parse_networks_ok
      split: option.splits sum.splits)

text \<open>
  The README's example, \<^verbatim>\<open>New()\<close> followed by \<^verbatim>\<open>AddPathRule\<close> with two well-formed
  prefixes, panics; the same kind of call on \<^verbatim>\<open>NewFirewall\<close> with an empty, non-nil
  map succeeds.
\<close>

theorem AddPathRule_after_New_panics_witness:
  "list_all (\<lambda>n. \<not> isl (ParseCIDR net4 n)) [''10.0.0.0/8'', ''192.168.0.0/16''] \<and>
   AddPathRule net4 New ''/hello_world'' [''10.0.0.0/8'', ''192.168.0.0/16''] =
     Inl AssignmentToNilMap \<and>
   AddPathRule net4 (NewFirewall (Some Map.empty) False False) ''/hello'' [''10.0.0.0/8''] =
     Inr (NewFirewall hello_rules False False, None) \<and>
   PathToNetblocks (Rules (NewFirewall (Some Map.empty) False False)) \<noteq> None"
proof -
  have parses: "list_all (\<lambda>n. \<not> isl (ParseCIDR net4 n)) [''10.0.0.0/8'', ''192.168.0.0/16'']"
    by (simp add: net4_def net_ParseCIDR_net10 net_ParseCIDR_net192)
  from AddPathRule_after_New_panics [of "''/hello_world''" net4
      "[''10.0.0.0/8'', ''192.168.0.0/16'']"] parses
  have "AddPathRule net4 New ''/hello_world'' [''10.0.0.0/8'', ''192.168.0.0/16''] =
     Inl AssignmentToNilMap"
    by blast
  with parses AddPathRule_hello [of False False] show ?thesis
    by (simp add: NewFirewall_def)
qed

text \<open>
  Claim C6. A call of \<^verbatim>\<open>AddPathRule\<close> for a path that has an entry returns
  \<^verbatim>\<open>ErrPathHasRule\<close> and the firewall as it was. In particular, after a first call that
  succeeded the path holds the prefixes parsed from that call's list, in order, and a
  second call for the path returns the error and leaves that firewall, hence every entry
  of its table, unchanged.
\<close>

theorem AddPathRule_configured_path_rejected:
  "(map_index (PathToNetblocks (Rules fw)) path = Some netblocks \<longrightarrow>
      AddPathRule L fw path networks = Inr (fw, Some ErrPathHasRule)) \<and>
   (AddPathRule L fw path first = Inr (fw1, None) \<longrightarrow>
      map_index (PathToNetblocks (Rules fw1)) path =
        Some (map (\<lambda>n. projr (ParseCIDR L n)) first) \<and>
      AddPathRule L fw1 path second = Inr (fw1, Some ErrPathHasRule))"
proof (intro conjI impI)
  assume "map_index (PathToNetblocks (Rules fw)) path = Some netblocks"
  then show "AddPathRule L fw path networks = Inr (fw, Some ErrPathHasRule)"
    by (simp add: AddPathRule_def)
next
  assume added: "AddPathRule L fw path first = Inr (fw1, None)"
  then show entry: "map_index (PathToNetblocks (Rules fw1)) path =
      Some (map (\<lambda>n. projr (ParseCIDR L n)) first)"
    by (auto simp: AddPathRule_def map_index_def
        split: option.splits sum.splits dest!: parse_networks_Inr)
  then show "AddPathRule L fw1 path second = Inr (fw1, Some ErrPathHasRule)"
    by (simp add: AddPathRule_def)
qed

text \<open>
  The spec's scenario D: \<^verbatim>\<open>/hello\<close> is registered with 10.0.0.0/8, then again with
  192.168.0.0/16; the second call is rejected and the entry is still 10.0.0.0/8.
\<close>

theorem AddPathRule_configured_path_rejected_witness:
  "AddPathRule net4 (NewFirewall (Some Map.empty) False False) ''/hello'' [''10.0.0.0/8''] =
     Inr (NewFirewall hello_rules False False, None) \<and>
   AddPathRule net4 (NewFirewall hello_rules False False) ''/hello'' [''192.168.0.0/16''] =
     Inr (NewFirewall hello_rules False False, Some ErrPathHasRule) \<and>
   map_index (PathToNetblocks (Rules (NewFirewall hello_rules False False))) ''/hello'' =
     Some [net10]"
  using AddPathRule_configured_path_rejected [of "NewFirewall (Some Map.empty) False False"
      "''/hello''" "[net10]" net4 "[''192.168.0.0/16'']" "[''10.0.0.0/8'']"
      "NewFirewall hello_rules False False" "[''192.168.0.0/16'']"]
    AddPathRule_hello [of False False]
  by (simp add: net4_def net_ParseCIDR_net10)

text \<open>
  Claim C7. If some string of the list does not parse, \<^verbatim>\<open>AddPathRule\<close> returns an error
  and the firewall as it was: nothing is added. When the path is not configured (the
  case the claim is about: otherwise line 62 has already returned \<^verbatim>\<open>ErrPathHasRule\<close>),
  the error is the one built on line 69 from the parser's report for the first string
  that does not parse, whatever follows it in the list; the path is still not configured
  afterwards, the firewall being unchanged.
\<close>

theorem AddPathRule_unparseable_network:
  assumes "\<exists>n\<in>set networks. isl (ParseCIDR L n)"
  shows "(\<exists>e. AddPathRule L fw path networks = Inr (fw, Some e)) \<and>
         (map_index (PathToNetblocks (Rules fw)) path = None \<longrightarrow>
            (\<exists>good bad rest err.
               networks = good @ bad # rest \<and>
               list_all (\<lambda>n. \<not> isl (ParseCIDR L n)) good \<and>
               ParseCIDR L bad = Inl err \<and>
               AddPathRule L fw path networks =
                 Inr (fw, Some (Errorf (''could not parse CIDR: '' @ err)))))"
proof -
  from first_unparseable [OF assms] obtain good bad rest err where
    split: "networks = good @ bad # rest"
    and good: "list_all (\<lambda>n. \<not> isl (ParseCIDR L n)) good"
    and bad: "ParseCIDR L bad = Inl err"
    by blast
  have loop: "parse_networks L networks [] = Inl (Errorf (''could not parse CIDR: '' @ err))"
    unfolding split by (rule parse_networks_fail [OF good bad])
  have unchanged: "\<exists>e. AddPathRule L fw path networks = Inr (fw, Some e)"
    by (cases "map_index (PathToNetblocks (Rules fw)) path") (simp_all add: AddPathRule_def loop)
  have "AddPathRule L fw path networks = Inr (fw, Some (Errorf (''could not parse CIDR: '' @ err)))"
    if "map_index (PathToNetblocks (Rules fw)) path = None"
    using that by (simp add: AddPathRule_def loop)
  with unchanged split good bad show ?thesis by blast
qed

text \<open>
  A list whose second string lacks the prefix length: the error names that string and
  the table is as before, also on the firewall of \<^verbatim>\<open>New\<close>, where the nil map is never
  written.
\<close>

theorem AddPathRule_unparseable_network_witness:
  "isl (ParseCIDR net4 ''10.0.0.0'') \<and>
   AddPathRule net4 (NewFirewall (Some Map.empty) False False) ''/hello''
       [''10.0.0.0/8'', ''10.0.0.0'', ''192.168.0.0/16''] =
     Inr (NewFirewall (Some Map.empty) False False,
          Some (Errorf ''could not parse CIDR: invalid CIDR address: 10.0.0.0'')) \<and>
   AddPathRule net4 New ''/hello'' [''10.0.0.0/8'', ''10.0.0.0'', ''192.168.0.0/16''] =
     Inr (New, Some (Errorf ''could not parse CIDR: invalid CIDR address: 10.0.0.0''))"
proof -
  have bad: "ParseCIDR net4 ''10.0.0.0'' = Inl ''invalid CIDR address: 10.0.0.0''"
    using net_ParseCIDR_no_slash [of "''10.0.0.0''"] by (simp add: net4_def)
  then have some: "\<exists>n\<in>set [''10.0.0.0/8'', ''10.0.0.0'', ''192.168.0.0/16'']. isl (ParseCIDR net4 n)"
    by simp
  have good: "ParseCIDR net4 ''10.0.0.0/8'' = Inr net10"
    by (simp add: net4_def net_ParseCIDR_net10)
  from AddPathRule_unparseable_network [OF some, of "NewFirewall (Some Map.empty) False False" "''/hello''"]
    AddPathRule_unparseable_network [OF some, of New "''/hello''"] bad good
  show ?thesis
    by (simp add: AddPathRule_def map_index_def NewFirewall_def New_def)
qed

subsection \<open>Wrap\<close>

text \<open>
  Claim C9. The wrapped handler always finds a source address (line 82 does not panic)
  and then does one of two things. When the request is authorized it runs the inner
  handler on the state and the request it was given, and nothing else. When it is not,
  the inner handler does not run: the state changes only by the log line and by one call
  of \<^verbatim>\<open>http.Error\<close> with the code 403 and the message \<^verbatim>\<open>Forbidden\<close>, the status text
  of that code, which mentions neither the rules nor the address.
\<close>

theorem Wrap_rejects_or_forwards:
  "\<exists>srcIP. extract_srcIP L r = Inr srcIP \<and>
     Wrap L fw h w r =
       (if authorized L fw (URL_Path r) srcIP then Inr (h w r)
        else Inr (w\<lparr>log_lines := log_lines w @ [blocked_line L srcIP (URL_Path r)],
                    error_replies :=
                      error_replies w @ [(StatusText StatusForbidden, StatusForbidden)]\<rparr>)) \<and>
     StatusForbidden = 403 \<and> StatusText StatusForbidden = ''Forbidden''"
  by (simp add: extract_srcIP_eq Wrap_eq StatusText_def StatusForbidden_def)

text \<open>
  The spec's scenario A: \<^verbatim>\<open>/hello\<close> trusts 10.0.0.0/8 and \<^verbatim>\<open>FailOpen\<close> is off. The
  request from 10.1.2.3 reaches the README's handler; the one from 203.0.113.5 gets the
  403 reply and the handler writes nothing.
\<close>

theorem Wrap_rejects_or_forwards_witness:
  "Wrap net4 (NewFirewall hello_rules False False) helloWorldHandler idle
     \<lparr>RemoteAddr = ''10.1.2.3:4242'', URL_Path = ''/hello''\<rparr> =
     Inr \<lparr>log_lines = [], error_replies = [], written = [(200, ''Hello World!'')]\<rparr> \<and>
   Wrap net4 (NewFirewall hello_rules False False) helloWorldHandler idle
     \<lparr>RemoteAddr = ''203.0.113.5:4242'', URL_Path = ''/hello''\<rparr> =
     Inr \<lparr>log_lines = [''[FIREWALL] blocked request from 203.0.113.5 for /hello''],
          error_replies = [(''Forbidden'', 403)], written = []\<rparr>"
  using Wrap_rejects_or_forwards [of net4 "\<lparr>RemoteAddr = ''10.1.2.3:4242'', URL_Path = ''/hello''\<rparr>"
      "NewFirewall hello_rules False False" helloWorldHandler idle]
    Wrap_rejects_or_forwards [of net4 "\<lparr>RemoteAddr = ''203.0.113.5:4242'', URL_Path = ''/hello''\<rparr>"
      "NewFirewall hello_rules False False" helloWorldHandler idle]
  by (simp add: extract_srcIP_eq authorized_def NewFirewall_def hello_rules_def map_index_def
      IPIsTrusted_def net4_def net_ParseIP_10 net_ParseIP_203 net_Contains_net10_in
      net_Contains_net10_out blocked_line_def net_IP_String_203 helloWorldHandler_def idle_def)

text \<open>
  Claim C10. The source address is parsed from the text of \<^verbatim>\<open>RemoteAddr\<close> before its first
  colon. For an IPv6 peer, bracketed with a port as \<^verbatim>\<open>net.JoinHostPort\<close> writes it or
  bare, that text is the first group of the address, with the bracket before it in the
  first form: it has no \<^verbatim>\<open>.\<close> and no \<^verbatim>\<open>:\<close>, so \<^verbatim>\<open>ParseIP\<close> returns nil. The nil address
  is in no trusted list, the decision is the \<^verbatim>\<open>FailOpen\<close> flag, and the request is
  rejected unless the flag is set.
\<close>

theorem IPv6_peer_unresolvable:
  assumes "ParseIP_needs_separator L"
    and "ipv6_text host"
    and "RemoteAddr r = JoinHostPort host port \<or> RemoteAddr r = host"
  shows "extract_srcIP L r = Inr None \<and>
         \<not> IPIsTrusted L trusted None \<and>
         authorized L fw (URL_Path r) None = FailOpen (Rules fw) \<and>
         Wrap L fw h w r =
           (if FailOpen (Rules fw) then Inr (h w r)
            else Inr (w\<lparr>log_lines := log_lines w @ [blocked_line L None (URL_Path r)],
                        error_replies := error_replies w @ [(''Forbidden'', 403)]\<rparr>))"
proof -
  from ipv6_segment [OF assms(2,3)] assms(1)
  have nil: "ParseIP L (takeWhile (\<lambda>c. c \<noteq> CHR '':'') (RemoteAddr r)) = None"
    by (simp add: ParseIP_needs_separator_def)
  have decision: "authorized L fw (URL_Path r) None = FailOpen (Rules fw)"
    by (simp add: authorized_def IPIsTrusted_def split: option.splits)
  show ?thesis
    by (simp add: extract_srcIP_eq Wrap_eq nil decision IPIsTrusted_def)
qed

text \<open>
  The peer \<^verbatim>\<open>[::1]:8080\<close> is rejected on \<^verbatim>\<open>/hello\<close> with the placeholder \<^verbatim>\<open><nil>\<close> in the
  log line; with \<^verbatim>\<open>FailOpen\<close> set the bare peer \<^verbatim>\<open>2001:db8::7\<close> is served.
\<close>

theorem IPv6_peer_unresolvable_witness:
  "ParseIP_needs_separator net4 \<and> ipv6_text ''::1'' \<and> ipv6_text ''2001:db8::7'' \<and>
   JoinHostPort ''::1'' ''8080'' = ''[::1]:8080'' \<and>
   Wrap net4 (NewFirewall hello_rules False False) helloWorldHandler idle
     \<lparr>RemoteAddr = ''[::1]:8080'', URL_Path = ''/hello''\<rparr> =
     Inr \<lparr>log_lines = [''[FIREWALL] blocked request from <nil> for /hello''],
          error_replies = [(''Forbidden'', 403)], written = []\<rparr> \<and>
   Wrap net4 (NewFirewall hello_rules True False) helloWorldHandler idle
     \<lparr>RemoteAddr = ''2001:db8::7'', URL_Path = ''/hello''\<rparr> =
     Inr \<lparr>log_lines = [], error_replies = [], written = [(200, ''Hello World!'')]\<rparr>"
proof -
  have t1: "ipv6_text ''::1''" and t2: "ipv6_text ''2001:db8::7''"
    by (simp_all add: ipv6_text_def isHexDigit_def)
  have j: "JoinHostPort ''::1'' ''8080'' = ''[::1]:8080''"
    by (simp add: JoinHostPort_def)
  have a1: "RemoteAddr \<lparr>RemoteAddr = ''[::1]:8080'', URL_Path = ''/hello''\<rparr> =
      JoinHostPort ''::1'' ''8080'' \<or>
      RemoteAddr \<lparr>RemoteAddr = ''[::1]:8080'', URL_Path = ''/hello''\<rparr> = ''::1''"
    by (simp add: j)
  have a2: "RemoteAddr \<lparr>RemoteAddr = ''2001:db8::7'', URL_Path = ''/hello''\<rparr> =
      JoinHostPort ''2001:db8::7'' ''443'' \<or>
      RemoteAddr \<lparr>RemoteAddr = ''2001:db8::7'', URL_Path = ''/hello''\<rparr> = ''2001:db8::7''"
    by simp
  from IPv6_peer_unresolvable [OF net4_needs_separator t1 a1,
      of "[]" "NewFirewall hello_rules False False" helloWorldHandler idle]
    IPv6_peer_unresolvable [OF net4_needs_separator t2 a2,
      of "[]" "NewFirewall hello_rules True False" helloWorldHandler idle]
    net4_needs_separator t1 t2 j
  show ?thesis
    by (simp add: NewFirewall_def blocked_line_def net4_def net_IP_String_nil
        helloWorldHandler_def idle_def)
qed

subsection \<open>Where the code departs from its documentation\<close>

text \<open>
  The decision on line 85 is a disjunction with \<^verbatim>\<open>FailOpen\<close>, and \<^verbatim>\<open>Wrap\<close> never reads
  the \<^verbatim>\<open>Log\<close> field.
\<close>

lemma FailOpen_authorizes: "FailOpen (Rules fw) \<Longrightarrow> authorized L fw path a"
  by (simp add: authorized_def split: option.splits)

lemma fail_closed_configured_path:
  "\<not> FailOpen (Rules fw) \<Longrightarrow> map_index (PathToNetblocks (Rules fw)) path = Some trusted \<Longrightarrow>
   authorized L fw path a = IPIsTrusted L trusted a"
  by (simp add: authorized_def)

lemma Wrap_ignores_Log: "Wrap L (fw\<lparr>Log := b\<rparr>) h w r = Wrap L fw h w r"
  by (simp add: Wrap_eq authorized_def)

lemma AddPathRule_no_networks:
  "AddPathRule L (NewFirewall (Some Map.empty) failOpen log) ''/hello'' [] =
     Inr (NewFirewall (Some [''/hello'' \<mapsto> []]) failOpen log, None)"
  by (simp add: AddPathRule_def map_index_def NewFirewall_def)

text \<open>
  Claim C1 says that on a configured path an address outside every trusted prefix is
  denied also when \<^verbatim>\<open>FailOpen\<close> is set. The code does not do that: \<^verbatim>\<open>/hello\<close> trusts
  10.0.0.0/8 and \<^verbatim>\<open>FailOpen\<close> is set; the address 203.0.113.5 is extracted from the
  request, it is not trusted for the path, and yet the request is authorized and the
  inner handler runs.
\<close>

theorem FailOpen_admits_untrusted_address:
  "map_index (PathToNetblocks (Rules (NewFirewall hello_rules True False))) ''/hello'' =
     Some [net10] \<and>
   extract_srcIP net4 \<lparr>RemoteAddr = ''203.0.113.5:4242'', URL_Path = ''/hello''\<rparr> =
     Inr (Some (IPv4 203 0 113 5)) \<and>
   IPIsTrusted net4 [net10] (Some (IPv4 203 0 113 5)) = False \<and>
   authorized net4 (NewFirewall hello_rules True False) ''/hello'' (Some (IPv4 203 0 113 5)) \<and>
   Wrap net4 (NewFirewall hello_rules True False) helloWorldHandler idle
     \<lparr>RemoteAddr = ''203.0.113.5:4242'', URL_Path = ''/hello''\<rparr> =
     Inr \<lparr>log_lines = [], error_replies = [], written = [(200, ''Hello World!'')]\<rparr>"
  by (simp add: Wrap_eq extract_srcIP_eq authorized_def NewFirewall_def hello_rules_def
      map_index_def IPIsTrusted_def net4_def net_ParseIP_203 net_Contains_net10_out
      helloWorldHandler_def idle_def)

text \<open>
  Claim C2 says that a denial is logged exactly when the \<^verbatim>\<open>Log\<close> flag is set. The code
  logs every denial: with the flag off, the rejected request from 203.0.113.5 still
  leaves its line in the log.
\<close>

theorem denial_logged_with_Log_off:
  "Log (NewFirewall hello_rules False False) = False \<and>
   Wrap net4 (NewFirewall hello_rules False False) helloWorldHandler idle
     \<lparr>RemoteAddr = ''203.0.113.5:4242'', URL_Path = ''/hello''\<rparr> =
     Inr \<lparr>log_lines = [''[FIREWALL] blocked request from 203.0.113.5 for /hello''],
          error_replies = [(''Forbidden'', 403)], written = []\<rparr>"
  by (simp add: Wrap_eq authorized_def NewFirewall_def hello_rules_def map_index_def
      IPIsTrusted_def net4_def net_ParseIP_203 net_Contains_net10_out blocked_line_def
      net_IP_String_203 idle_def)

text \<open>
  Claim C4 says that a path configured with an empty list denies every address. The
  code does so only while \<^verbatim>\<open>FailOpen\<close> is off: registering \<^verbatim>\<open>/hello\<close> with no networks
  gives it an entry with no prefix, no address is trusted for it, and with \<^verbatim>\<open>FailOpen\<close>
  set every address is authorized all the same and the inner handler runs.
\<close>

theorem FailOpen_admits_on_empty_list:
  "AddPathRule L (NewFirewall (Some Map.empty) True False) ''/hello'' [] =
     Inr (NewFirewall (Some [''/hello'' \<mapsto> []]) True False, None) \<and>
   map_index (PathToNetblocks (Rules (NewFirewall (Some [''/hello'' \<mapsto> []]) True False)))
     ''/hello'' = Some [] \<and>
   IPIsTrusted L [] a = False \<and>
   authorized L (NewFirewall (Some [''/hello'' \<mapsto> []]) True False) ''/hello'' a \<and>
   Wrap net4 (NewFirewall (Some [''/hello'' \<mapsto> []]) True False) helloWorldHandler idle
     \<lparr>RemoteAddr = ''203.0.113.5:4242'', URL_Path = ''/hello''\<rparr> =
     Inr \<lparr>log_lines = [], error_replies = [], written = [(200, ''Hello World!'')]\<rparr>"
proof -
  have "IPIsTrusted L [] a = False"
    by (cases a) (simp_all add: IPIsTrusted_def)
  then show ?thesis
    using AddPathRule_no_networks [of L True False]
    by (simp add: Wrap_eq FailOpen_authorizes NewFirewall_def map_index_def
        helloWorldHandler_def idle_def)
qed

end
